theory Spec2Isabelle
  imports Main "HOL-Library.Char_ord" "HOL-Library.List_Lexorder"
begin

section \<open>Host values: base::Value, base::DictionaryValue, base::IntToString\<close>

text \<open>
  The files under verification are glue code over Chromium's base library and browser
  process. What the code calls there is not among the sources: the data it reads become
  records, and every call whose answer the sources do not fix is a parameter of the
  function that makes it.

  Modelled from the spec: \<open>base::Value\<close> (base/values.h) is not among the sources; it is a
  tagged union. Only the tags the code reads or writes are kept apart; \<open>OtherValue\<close> stands
  for the remaining ones (double, binary, list, dictionary).
\<close>

datatype Value =
    NullValue
  | BooleanValue bool
  | IntegerValue int
  | StringValue string
  | OtherValue

text \<open>
  Modelled from the spec: \<open>base::DictionaryValue\<close> (base/values.h) is not among the sources;
  it is backed by a \<open>std::map<std::string, Value*>\<close>: its entries, in the order an iterator
  visits them (ascending keys). The keys the code passes are constraint names, decimal ids
  and session tags; for a key free of the path separator \<open>.\<close> the path-expanding accessors
  (\<open>Get\<close>, \<open>GetInteger\<close>, \<open>SetBoolean\<close>, \<open>SetString\<close>) are the plain ones, as here.
\<close>

type_synonym DictionaryValue = "(string \<times> Value) list"

definition Get :: "DictionaryValue \<Rightarrow> string \<Rightarrow> Value option" where
  "Get d key = map_of d key"

definition HasKey :: "DictionaryValue \<Rightarrow> string \<Rightarrow> bool" where
  "HasKey d key = (Get d key \<noteq> None)"

definition GetInteger :: "DictionaryValue \<Rightarrow> string \<Rightarrow> int option" where
  "GetInteger d key = (case Get d key of Some (IntegerValue i) \<Rightarrow> Some i | _ \<Rightarrow> None)"

definition GetBoolean :: "DictionaryValue \<Rightarrow> string \<Rightarrow> bool option" where
  "GetBoolean d key = (case Get d key of Some (BooleanValue b) \<Rightarrow> Some b | _ \<Rightarrow> None)"

definition GetAsString :: "Value \<Rightarrow> string option" where
  "GetAsString v = (case v of StringValue s \<Rightarrow> Some s | _ \<Rightarrow> None)"

definition GetString :: "DictionaryValue \<Rightarrow> string \<Rightarrow> string option" where
  "GetString d key = (case Get d key of Some v \<Rightarrow> GetAsString v | None \<Rightarrow> None)"

fun SetValue :: "DictionaryValue \<Rightarrow> string \<Rightarrow> Value \<Rightarrow> DictionaryValue" where
  "SetValue [] key v = [(key, v)]"
| "SetValue ((k, w) # d) key v =
     (if key = k then (key, v) # d
      else if key < k then (key, v) # (k, w) # d
      else (k, w) # SetValue d key v)"

definition SetBoolean :: "DictionaryValue \<Rightarrow> string \<Rightarrow> bool \<Rightarrow> DictionaryValue" where
  "SetBoolean d key b = SetValue d key (BooleanValue b)"

definition SetString :: "DictionaryValue \<Rightarrow> string \<Rightarrow> string \<Rightarrow> DictionaryValue" where
  "SetString d key s = SetValue d key (StringValue s)"

definition Remove :: "DictionaryValue \<Rightarrow> string \<Rightarrow> DictionaryValue" where
  "Remove d key = filter (\<lambda>e. fst e \<noteq> key) d"


text \<open>
  Modelled from the spec: \<open>base::IntToString\<close> (base/strings/string_number_conversions.h)
  is not among the sources; it yields "the decimal string of an integer": the digits of
  the absolute value, most significant first, after a minus sign for a negative number.
\<close>

definition digit :: "nat \<Rightarrow> char" where
  "digit n = ''0123456789'' ! (n mod 10)"

function NatToString :: "nat \<Rightarrow> string" where
  "NatToString n = (if n < 10 then [digit n] else NatToString (n div 10) @ [digit n])"
  by pat_completeness auto
termination
  by (relation "measure (\<lambda>n. n)") auto

definition IntToString :: "int \<Rightarrow> string" where
  "IntToString i = (if i < 0 then CHR ''-'' # NatToString (nat (- i)) else NatToString (nat i))"

section \<open>chrome.tabCapture (tab_capture_api.cc)\<close>

definition kCapturingSameTab :: string where
  "kCapturingSameTab = ''Cannot capture a tab with an active stream.''"

definition kFindingTabError :: string where
  "kFindingTabError = ''Error finding tab to capture.''"

definition kNoAudioOrVideo :: string where
  "kNoAudioOrVideo = ''Capture failed. No audio or video requested.''"

definition kGrantError :: string where
  "kGrantError = ''Extension has not been invoked for the current page (see activeTab '' @
     ''permission). Chrome pages cannot be captured.''"

definition kNotWhitelistedForOffscreenTabApi :: string where
  "kNotWhitelistedForOffscreenTabApi =
     ''Extension is not whitelisted for use of the unstable, in-development '' @
     ''chrome.tabCapture.captureOffscreenTab API.''"

definition kInvalidStartUrl :: string where
  "kInvalidStartUrl = ''Invalid/Missing/Malformatted starting URL for off-screen tab.''"

definition kTooManyOffscreenTabs :: string where
  "kTooManyOffscreenTabs = ''Extension has already started too many off-screen tabs.''"

definition kCapturingSameOffscreenTab :: string where
  "kCapturingSameOffscreenTab = ''Cannot capture the same off-screen tab more than once.''"

definition kMediaStreamSource :: string where
  "kMediaStreamSource = ''chromeMediaSource''"

definition kMediaStreamSourceId :: string where
  "kMediaStreamSourceId = ''chromeMediaSourceId''"

definition kMediaStreamSourceTab :: string where
  "kMediaStreamSourceTab = ''tab''"

definition kEnableAutoThrottlingKey :: string where
  "kEnableAutoThrottlingKey = ''enableAutoThrottling''"

definition kBetaChromecastExtensionId :: string where
  "kBetaChromecastExtensionId = ''dliochdbjfkdbacpmhlcpmleaejidimm''"

definition kStableChromecastExtensionId :: string where
  "kStableChromecastExtensionId = ''boadgeojelhgndaghljhdicfkmllpafd''"

definition kChromecastExtensionIds :: "string list" where
  "kChromecastExtensionIds =
     [''enhhojjnijigcajfphajepfemndkmdlo'',
      ''fmfcbgogabcbclcofgocippekhfcmgfj'',
      ''hfaagokkkhdbgiakmmlclaapfelnkoah'',
      kBetaChromecastExtensionId,
      kStableChromecastExtensionId,
      ''hlgmmjhlnlapooncikdpiiokdjcdpjme'']"

definition kMediaRouterExtensionIds :: "string list" where
  "kMediaRouterExtensionIds =
     [''pkedcjkdefgpdelpbcmbmeomcjbeemfm'',
      ''ekpaaapppgpmolpcldedioblbkmijaca'']"

text \<open>
  The generated API types: a \<open>MediaStreamConstraint\<close> holds the additional properties of
  its mandatory part and, when present, of its optional part; \<open>CaptureOptions\<close> holds
  optional members (a \<open>scoped_ptr\<close> that may be null is an \<open>option\<close>).
\<close>

record MediaStreamConstraint =
  mandatory :: DictionaryValue
  optional :: "DictionaryValue option"

record CaptureOptions =
  audio :: "bool option"
  video :: "bool option"
  audio_constraints :: "MediaStreamConstraint option"
  video_constraints :: "MediaStreamConstraint option"
  presentation_id :: "string option"

text \<open>A \<open>content::WebContents\<close>, as far as the code reads it: the ids of its main frame
  and the session id of its tab.\<close>

record WebContents =
  process_id :: int
  routing_id :: int
  session_tab_id :: int

definition OptionsSpecifyAudioOrVideo :: "CaptureOptions \<Rightarrow> bool" where
  "OptionsSpecifyAudioOrVideo options =
     ((case audio options of Some a \<Rightarrow> a | None \<Rightarrow> False) \<or>
      (case video options of Some v \<Rightarrow> v | None \<Rightarrow> False))"

text \<open>Modelled from the spec: \<open>GURL\<close> (url/gurl.h) is not among the sources; as far as the
  code reads it, it is its text (empty for an empty URL), whether it parsed, and its
  scheme. Parsing a string into a \<open>GURL\<close> is a parameter (\<open>ParseGURL\<close> below).\<close>

record GURL =
  spec :: string
  is_valid :: bool
  scheme :: string

definition is_empty :: "GURL \<Rightarrow> bool" where
  "is_empty url = (spec url = '''')"

definition SchemeIs :: "GURL \<Rightarrow> string \<Rightarrow> bool" where
  "SchemeIs url s = (scheme url = s)"

definition SchemeIsHTTPOrHTTPS :: "GURL \<Rightarrow> bool" where
  "SchemeIsHTTPOrHTTPS url = (SchemeIs url ''http'' \<or> SchemeIs url ''https'')"

definition IsAcceptableOffscreenTabUrl :: "GURL \<Rightarrow> bool" where
  "IsAcceptableOffscreenTabUrl url =
     (is_valid url \<and> (SchemeIsHTTPOrHTTPS url \<or> SchemeIs url ''data''))"

definition empty_constraint :: MediaStreamConstraint where
  "empty_constraint = \<lparr>mandatory = [], optional = None\<rparr>"

definition device_id_for :: "WebContents \<Rightarrow> bool \<Rightarrow> string" where
  "device_id_for target_contents enable_auto_throttling =
     ''web-contents-media-stream://'' @ IntToString (process_id target_contents) @ '':'' @
     IntToString (routing_id target_contents) @
     (if enable_auto_throttling then ''?throttling=auto'' else '''')"

definition append_tab_constraints :: "string \<Rightarrow> MediaStreamConstraint \<Rightarrow> MediaStreamConstraint" where
  "append_tab_constraints device_id msc =
     msc\<lparr>mandatory :=
       SetString (SetString (mandatory msc) kMediaStreamSource kMediaStreamSourceTab)
         kMediaStreamSourceId device_id\<rparr>"

definition AddMediaStreamSourceConstraints :: "WebContents \<Rightarrow> CaptureOptions \<Rightarrow> CaptureOptions" where
  "AddMediaStreamSourceConstraints target_contents options =
     (let audio_on = (case audio options of Some a \<Rightarrow> a | None \<Rightarrow> False);
          video_on = (case video options of Some v \<Rightarrow> v | None \<Rightarrow> False);
          options1 =
            (if audio_on \<and> audio_constraints options = None
             then options\<lparr>audio_constraints := Some empty_constraint\<rparr> else options);
          enable_auto_throttling =
            (if video_on then
               (case video_constraints options1 of
                  Some vc \<Rightarrow>
                    (case GetBoolean (mandatory vc) kEnableAutoThrottlingKey of
                       Some b \<Rightarrow> b | None \<Rightarrow> False)
                | None \<Rightarrow> False)
             else False);
          options2 =
            (if video_on then
               (case video_constraints options1 of
                  Some vc \<Rightarrow>
                    options1\<lparr>video_constraints :=
                      Some (vc\<lparr>mandatory := Remove (mandatory vc) kEnableAutoThrottlingKey\<rparr>)\<rparr>
                | None \<Rightarrow> options1\<lparr>video_constraints := Some empty_constraint\<rparr>)
             else options1);
          device_id = device_id_for target_contents enable_auto_throttling
      in options2\<lparr>
           audio_constraints :=
             (if audio_on then map_option (append_tab_constraints device_id) (audio_constraints options2)
              else audio_constraints options2),
           video_constraints :=
             (if video_on then map_option (append_tab_constraints device_id) (video_constraints options2)
              else video_constraints options2)\<rparr>)"

text \<open>
  Modelled from the spec: \<open>gfx::Size\<close> (ui/gfx/geometry/size.h) is not among the sources; it
  is a width and a height that are never negative (the constructor and \<open>SetSize\<close> raise a
  negative side to 0); the default size is 0x0, and a size is empty when one of its sides
  is 0.
\<close>

record Size =
  width :: int
  height :: int

definition gfx_Size :: "int \<Rightarrow> int \<Rightarrow> Size" where
  "gfx_Size w h = \<lparr>width = (if w < 0 then 0 else w), height = (if h < 0 then 0 else h)\<rparr>"

definition Size_default :: Size where
  "Size_default = \<lparr>width = 0, height = 0\<rparr>"

definition IsEmpty :: "Size \<Rightarrow> bool" where
  "IsEmpty s = (width s = 0 \<or> height s = 0)"

text \<open>
  The test \<open>d.GetInteger(wkey, &width) && width >= 0 && d.GetInteger(hkey, &height) &&
  height >= 0\<close> of \<open>DetermineInitialSize\<close>: when it holds, \<open>width\<close> and \<open>height\<close> hold the
  two integers just read (the values left in them by a test that failed are never used).
\<close>

definition size_constraint :: "DictionaryValue \<Rightarrow> string \<Rightarrow> string \<Rightarrow> (int \<times> int) option" where
  "size_constraint d wkey hkey =
     (case GetInteger d wkey of
        None \<Rightarrow> None
      | Some w \<Rightarrow>
          if w \<ge> 0 then
            (case GetInteger d hkey of
               None \<Rightarrow> None
             | Some h \<Rightarrow> if h \<ge> 0 then Some (w, h) else None)
          else None)"

definition kDefaultWidth :: int where
  "kDefaultWidth = 1280"

definition kDefaultHeight :: int where
  "kDefaultHeight = 720"

definition default_bounded_by :: "Size \<Rightarrow> Size" where
  "default_bounded_by min_size =
     gfx_Size (max kDefaultWidth (width min_size)) (max kDefaultHeight (height min_size))"

definition DetermineInitialSize :: "CaptureOptions \<Rightarrow> Size" where
  "DetermineInitialSize options =
     (case video_constraints options of
        None \<Rightarrow> gfx_Size kDefaultWidth kDefaultHeight
      | Some vc \<Rightarrow>
          (case size_constraint (mandatory vc) ''maxWidth'' ''maxHeight'' of
             Some (w, h) \<Rightarrow> gfx_Size w h
           | None \<Rightarrow>
               (let min_size =
                      (case size_constraint (mandatory vc) ''minWidth'' ''minHeight'' of
                         Some (w, h) \<Rightarrow> gfx_Size w h
                       | None \<Rightarrow> Size_default)
                in case optional vc of
                     None \<Rightarrow> default_bounded_by min_size
                   | Some optional_properties \<Rightarrow>
                       (case size_constraint optional_properties ''maxWidth'' ''maxHeight'' of
                          Some (w, h) \<Rightarrow>
                            if IsEmpty min_size then gfx_Size w h
                            else gfx_Size (max w (width min_size)) (max h (height min_size))
                        | None \<Rightarrow>
                            default_bounded_by
                              (if IsEmpty min_size then
                                 (case size_constraint optional_properties ''minWidth'' ''minHeight'' of
                                    Some (w, h) \<Rightarrow> gfx_Size w h
                                  | None \<Rightarrow> min_size)
                               else min_size)))))"

text \<open>
  What a synchronous extension function leaves behind: the value \<open>RunSync\<close> returned, the
  error string, whether \<open>EXTENSION_FUNCTION_VALIDATE\<close> flagged a bad message, and the
  result passed to \<open>SetResult\<close> (the dictionary of the capture options), if any.
\<close>

record RunSyncOutcome =
  returned :: bool
  error :: string
  bad_message :: bool
  result :: "CaptureOptions option"

definition ValidationFailure :: RunSyncOutcome where
  "ValidationFailure = \<lparr>returned = False, error = '''', bad_message = True, result = None\<rparr>"

definition fail_with :: "string \<Rightarrow> RunSyncOutcome" where
  "fail_with e = \<lparr>returned = False, error = e, bad_message = False, result = None\<rparr>"

definition succeed_with :: "CaptureOptions \<Rightarrow> RunSyncOutcome" where
  "succeed_with r = \<lparr>returned = True, error = '''', bad_message = False, result = Some r\<rparr>"

text \<open>
  The browser process around \<open>TabCaptureCaptureFunction::RunSync\<close>: the browser found by
  \<open>chrome::FindAnyBrowser\<close> (null or its active web contents, itself possibly null), the
  calling extension's id, its per-tab permission, the value of the
  \<open>--whitelisted-extension-id\<close> switch, \<open>SimpleFeature::IsIdInArray\<close> and the answer of
  \<open>TabCaptureRegistry::AddRequest\<close>. None of them is among the sources: parameters.
\<close>

record CaptureHost =
  FindAnyBrowser :: "WebContents option option"
  caller_extension_id :: string
  HasAPIPermissionForTab :: "int \<Rightarrow> bool"
  WhitelistedExtensionID :: string
  IsIdInArray :: "string \<Rightarrow> string list \<Rightarrow> bool"
  AddRequest :: "WebContents \<Rightarrow> string \<Rightarrow> bool \<Rightarrow> bool"
  ParseGURL :: "string \<Rightarrow> GURL"
  GetSenderWebContents :: "WebContents option"
  OpenNewTab :: "GURL \<Rightarrow> Size \<Rightarrow> string \<Rightarrow> WebContents option"

definition capture_granted :: "CaptureHost \<Rightarrow> WebContents \<Rightarrow> bool" where
  "capture_granted host target_contents =
     (\<not> (\<not> HasAPIPermissionForTab host (session_tab_id target_contents) \<and>
         WhitelistedExtensionID host \<noteq> caller_extension_id host \<and>
         \<not> IsIdInArray host (caller_extension_id host) kChromecastExtensionIds \<and>
         \<not> IsIdInArray host (caller_extension_id host) kMediaRouterExtensionIds))"

definition TabCaptureCaptureFunction_RunSync ::
  "CaptureHost \<Rightarrow> CaptureOptions option \<Rightarrow> RunSyncOutcome" where
  "TabCaptureCaptureFunction_RunSync host params =
     (case params of
        None \<Rightarrow> ValidationFailure
      | Some options \<Rightarrow>
          (case FindAnyBrowser host of
             None \<Rightarrow> fail_with kFindingTabError
           | Some None \<Rightarrow> fail_with kFindingTabError
           | Some (Some target_contents) \<Rightarrow>
               if \<not> capture_granted host target_contents then fail_with kGrantError
               else if \<not> OptionsSpecifyAudioOrVideo options then fail_with kNoAudioOrVideo
               else if \<not> AddRequest host target_contents (caller_extension_id host) False
                 then fail_with kCapturingSameTab
               else succeed_with (AddMediaStreamSourceConstraints target_contents options)))"

text \<open>The parameters of \<open>captureOffscreenTab\<close>: the start URL as text, and the options.\<close>

record CaptureOffscreenTabParams =
  start_url :: string
  options :: CaptureOptions

definition is_whitelisted_extension :: "CaptureHost \<Rightarrow> bool" where
  "is_whitelisted_extension host =
     (WhitelistedExtensionID host = caller_extension_id host \<or>
      IsIdInArray host (caller_extension_id host) kChromecastExtensionIds \<or>
      IsIdInArray host (caller_extension_id host) kMediaRouterExtensionIds)"

definition TabCaptureCaptureOffscreenTabFunction_RunSync ::
  "CaptureHost \<Rightarrow> CaptureOffscreenTabParams option \<Rightarrow> RunSyncOutcome" where
  "TabCaptureCaptureOffscreenTabFunction_RunSync host params =
     (case params of
        None \<Rightarrow> ValidationFailure
      | Some p \<Rightarrow>
          if \<not> is_whitelisted_extension host then fail_with kNotWhitelistedForOffscreenTabApi
          else if \<not> IsAcceptableOffscreenTabUrl (ParseGURL host (start_url p))
            then fail_with kInvalidStartUrl
          else if \<not> OptionsSpecifyAudioOrVideo (options p) then fail_with kNoAudioOrVideo
          else
            (case GetSenderWebContents host of
               None \<Rightarrow> ValidationFailure
             | Some extension_web_contents \<Rightarrow>
                 (case OpenNewTab host (ParseGURL host (start_url p))
                         (DetermineInitialSize (options p))
                         (if is_whitelisted_extension host then
                            (case presentation_id (options p) of
                               Some pid \<Rightarrow> pid | None \<Rightarrow> '''')
                          else '''') of
                    None \<Rightarrow> fail_with kTooManyOffscreenTabs
                  | Some offscreen_tab \<Rightarrow>
                      if \<not> AddRequest host offscreen_tab (caller_extension_id host) True
                        then fail_with kCapturingSameOffscreenTab
                      else succeed_with
                             (AddMediaStreamSourceConstraints offscreen_tab (options p)))))"

text \<open>Concrete browser states on which the functions are run.\<close>

definition tab1 :: WebContents where
  "tab1 = \<lparr>process_id = 7, routing_id = 3, session_tab_id = 11\<rparr>"

definition audio_only :: CaptureOptions where
  "audio_only = \<lparr>audio = Some True, video = None, audio_constraints = None,
     video_constraints = None, presentation_id = None\<rparr>"

definition nothing_requested :: CaptureOptions where
  "nothing_requested = \<lparr>audio = Some False, video = None, audio_constraints = None,
     video_constraints = None, presentation_id = None\<rparr>"

definition offscreen_request :: "string \<Rightarrow> CaptureOptions \<Rightarrow> CaptureOffscreenTabParams" where
  "offscreen_request u opts = \<lparr>start_url = u, options = opts\<rparr>"

definition url_of_text :: "string \<Rightarrow> GURL" where
  "url_of_text s =
     (if s = ''https://example.org/'' then \<lparr>spec = s, is_valid = True, scheme = ''https''\<rparr>
      else if s = ''ftp://example.org/'' then \<lparr>spec = s, is_valid = True, scheme = ''ftp''\<rparr>
      else \<lparr>spec = '''', is_valid = False, scheme = ''''\<rparr>)"

definition busy_host :: CaptureHost where
  "busy_host = \<lparr>FindAnyBrowser = Some (Some tab1), caller_extension_id = kStableChromecastExtensionId,
     HasAPIPermissionForTab = (\<lambda>t. t = 11), WhitelistedExtensionID = '''',
     IsIdInArray = (\<lambda>i ids. i \<in> set ids), AddRequest = (\<lambda>c e off. False),
     ParseGURL = url_of_text, GetSenderWebContents = Some tab1,
     OpenNewTab = (\<lambda>u s p. Some tab1)\<rparr>"

text \<open>
  The sizes \<open>DetermineInitialSize\<close> is specified to return. The four pairs it reads: the
  non-negative (maxWidth, maxHeight) and (minWidth, minHeight) of the mandatory and of the
  optional video constraints.
\<close>

definition mandatory_max :: "MediaStreamConstraint \<Rightarrow> (int \<times> int) option" where
  "mandatory_max vc = size_constraint (mandatory vc) ''maxWidth'' ''maxHeight''"

definition mandatory_min :: "MediaStreamConstraint \<Rightarrow> (int \<times> int) option" where
  "mandatory_min vc = size_constraint (mandatory vc) ''minWidth'' ''minHeight''"

definition optional_max :: "MediaStreamConstraint \<Rightarrow> (int \<times> int) option" where
  "optional_max vc =
     (case optional vc of None \<Rightarrow> None | Some d \<Rightarrow> size_constraint d ''maxWidth'' ''maxHeight'')"

definition optional_min :: "MediaStreamConstraint \<Rightarrow> (int \<times> int) option" where
  "optional_min vc =
     (case optional vc of None \<Rightarrow> None | Some d \<Rightarrow> size_constraint d ''minWidth'' ''minHeight'')"

definition bounded_below :: "int \<times> int \<Rightarrow> (int \<times> int) option \<Rightarrow> Size" where
  "bounded_below s m =
     (case m of
        None \<Rightarrow> \<lparr>width = fst s, height = snd s\<rparr>
      | Some (a, b) \<Rightarrow> \<lparr>width = max (fst s) a, height = max (snd s) b\<rparr>)"

definition first_found :: "'a option list \<Rightarrow> 'a option" where
  "first_found xs = (case filter (\<lambda>x. x \<noteq> None) xs of [] \<Rightarrow> None | x # _ \<Rightarrow> x)"

text \<open>The size as C8 words it: the optional maximum is bounded below by any non-negative
  mandatory minimum, and the default by the minimum found first, mandatory then optional.\<close>

definition claimed_initial_size :: "CaptureOptions \<Rightarrow> Size" where
  "claimed_initial_size opts =
     (case video_constraints opts of
        None \<Rightarrow> \<lparr>width = 1280, height = 720\<rparr>
      | Some vc \<Rightarrow>
          (case mandatory_max vc of
             Some (w, h) \<Rightarrow> \<lparr>width = w, height = h\<rparr>
           | None \<Rightarrow>
               (case optional_max vc of
                  Some s \<Rightarrow> bounded_below s (mandatory_min vc)
                | None \<Rightarrow>
                    bounded_below (1280, 720) (first_found [mandatory_min vc, optional_min vc]))))"

text \<open>The size the code computes: a mandatory minimum with a side equal to 0 is an empty
  \<open>gfx::Size\<close> and counts as not provided; it bounds the default only when the optional
  constraints give no minimum.\<close>

definition nonzero_sides :: "(int \<times> int) option \<Rightarrow> (int \<times> int) option" where
  "nonzero_sides m =
     (case m of None \<Rightarrow> None | Some (a, b) \<Rightarrow> if a = 0 \<or> b = 0 then None else Some (a, b))"

definition amended_initial_size :: "CaptureOptions \<Rightarrow> Size" where
  "amended_initial_size opts =
     (case video_constraints opts of
        None \<Rightarrow> \<lparr>width = 1280, height = 720\<rparr>
      | Some vc \<Rightarrow>
          (case mandatory_max vc of
             Some (w, h) \<Rightarrow> \<lparr>width = w, height = h\<rparr>
           | None \<Rightarrow>
               (case optional_max vc of
                  Some s \<Rightarrow> bounded_below s (nonzero_sides (mandatory_min vc))
                | None \<Rightarrow>
                    bounded_below (1280, 720)
                      (first_found [nonzero_sides (mandatory_min vc), optional_min vc,
                                    mandatory_min vc]))))"

definition zero_min_options :: CaptureOptions where
  "zero_min_options = \<lparr>audio = None, video = Some True, audio_constraints = None,
     video_constraints =
       Some \<lparr>mandatory = [(''minHeight'', IntegerValue 0), (''minWidth'', IntegerValue 0)],
             optional = Some [(''minHeight'', IntegerValue 3000), (''minWidth'', IntegerValue 3000)]\<rparr>,
     presentation_id = None\<rparr>"

section \<open>Foreign sessions (foreign_session_helper.cc)\<close>

text \<open>
  The session types of components/sessions and components/sync_sessions, as far as the
  code reads them. The \<open>SyncedWindowMap\<close> of a session is a \<open>std::map\<close> from window ids to
  windows: its entries in iterator order.
\<close>

record SerializedNavigationEntry =
  virtual_url :: GURL
  title :: string

record SessionTab =
  navigations :: "SerializedNavigationEntry list"
  current_navigation_index :: int
  tab_timestamp :: int
  tab_id :: int

record SessionWindow =
  tabs :: "SessionTab list"
  window_timestamp :: int
  window_id :: int

record SyncedSession =
  session_tag :: string
  session_name :: string
  device_type :: int
  modified_time :: int
  windows :: "(int \<times> SessionWindow) list"

text \<open>
  \<open>std::vector::at\<close> checks its index: out of range it raises \<open>std::out_of_range\<close>, which
  ends the process. Every function that reads a navigation entry can therefore abort.
\<close>

datatype abort = out_of_range

definition vector_at :: "'a list \<Rightarrow> int \<Rightarrow> abort + 'a" where
  "vector_at xs i = (if 0 \<le> i \<and> i < int (length xs) then Inr (xs ! nat i) else Inl out_of_range)"

text \<open>
  \<open>SessionTab::normalized_navigation_index\<close> is declared in session_types.h, which is not
  among the sources: it is the parameter \<open>normalized_navigation_index\<close> of every function
  below.
\<close>

definition ShouldSkipTab :: "(SessionTab \<Rightarrow> int) \<Rightarrow> SessionTab \<Rightarrow> abort + bool" where
  "ShouldSkipTab normalized_navigation_index session_tab =
     (if navigations session_tab = [] then Inr True
      else
        (let selected_index = normalized_navigation_index session_tab
         in case vector_at (navigations session_tab) selected_index of
              Inl a \<Rightarrow> Inl a
            | Inr current_navigation \<Rightarrow>
                if is_empty (virtual_url current_navigation) then Inr True else Inr False))"

fun ShouldSkipWindow_tabs :: "(SessionTab \<Rightarrow> int) \<Rightarrow> SessionTab list \<Rightarrow> abort + bool" where
  "ShouldSkipWindow_tabs normalized_navigation_index [] = Inr True"
| "ShouldSkipWindow_tabs normalized_navigation_index (session_tab # rest) =
     (case ShouldSkipTab normalized_navigation_index session_tab of
        Inl a \<Rightarrow> Inl a
      | Inr skip \<Rightarrow>
          if \<not> skip then Inr False
          else ShouldSkipWindow_tabs normalized_navigation_index rest)"

definition ShouldSkipWindow :: "(SessionTab \<Rightarrow> int) \<Rightarrow> SessionWindow \<Rightarrow> abort + bool" where
  "ShouldSkipWindow normalized_navigation_index window =
     ShouldSkipWindow_tabs normalized_navigation_index (tabs window)"

fun ShouldSkipSession_windows ::
  "(SessionTab \<Rightarrow> int) \<Rightarrow> (int \<times> SessionWindow) list \<Rightarrow> abort + bool" where
  "ShouldSkipSession_windows normalized_navigation_index [] = Inr True"
| "ShouldSkipSession_windows normalized_navigation_index (it # rest) =
     (case ShouldSkipWindow normalized_navigation_index (snd it) of
        Inl a \<Rightarrow> Inl a
      | Inr skip \<Rightarrow>
          if \<not> skip then Inr False
          else ShouldSkipSession_windows normalized_navigation_index rest)"

definition ShouldSkipSession :: "(SessionTab \<Rightarrow> int) \<Rightarrow> SyncedSession \<Rightarrow> abort + bool" where
  "ShouldSkipSession normalized_navigation_index session =
     ShouldSkipSession_windows normalized_navigation_index (windows session)"

text \<open>
  Modelled from the spec: ForeignSessionHelper.java is not among the sources; its methods
  \<open>pushSession\<close>, \<open>pushWindow\<close> and \<open>pushTab\<close> each append a new object to the list held by
  their first argument, and the first two return the object they appended. The Java
  result is then a list of sessions, each holding the windows pushed to it, each holding
  the tabs pushed to it.
\<close>

record JTab =
  j_url :: string
  j_title :: string
  j_timestamp :: int
  j_id :: int

record JWindow =
  jw_timestamp :: int
  jw_id :: int
  jw_tabs :: "JTab list"

record JSession =
  js_tag :: string
  js_name :: string
  js_device_type :: int
  js_modified_time :: int
  js_windows :: "JWindow list"

definition pushTab :: "JWindow \<Rightarrow> string \<Rightarrow> string \<Rightarrow> int \<Rightarrow> int \<Rightarrow> JWindow" where
  "pushTab j_window url ttl timestamp ident =
     j_window\<lparr>jw_tabs := jw_tabs j_window @
       [\<lparr>j_url = url, j_title = ttl, j_timestamp = timestamp, j_id = ident\<rparr>]\<rparr>"

definition new_window :: "int \<Rightarrow> int \<Rightarrow> JWindow" where
  "new_window timestamp ident = \<lparr>jw_timestamp = timestamp, jw_id = ident, jw_tabs = []\<rparr>"

definition new_session :: "string \<Rightarrow> string \<Rightarrow> int \<Rightarrow> int \<Rightarrow> JSession" where
  "new_session tag name dev modified =
     \<lparr>js_tag = tag, js_name = name, js_device_type = dev, js_modified_time = modified,
      js_windows = []\<rparr>"

definition CopyTabToJava :: "(SessionTab \<Rightarrow> int) \<Rightarrow> SessionTab \<Rightarrow> JWindow \<Rightarrow> abort + JWindow" where
  "CopyTabToJava normalized_navigation_index tab j_window =
     (let selected_index = normalized_navigation_index tab
      in case vector_at (navigations tab) selected_index of
           Inl a \<Rightarrow> Inl a
         | Inr current_navigation \<Rightarrow>
             Inr (pushTab j_window (spec (virtual_url current_navigation))
                    (title current_navigation) (tab_timestamp tab) (tab_id tab)))"

fun CopyWindowToJava_tabs ::
  "(SessionTab \<Rightarrow> int) \<Rightarrow> SessionTab list \<Rightarrow> JWindow \<Rightarrow> abort + JWindow" where
  "CopyWindowToJava_tabs normalized_navigation_index [] j_window = Inr j_window"
| "CopyWindowToJava_tabs normalized_navigation_index (session_tab # rest) j_window =
     (case ShouldSkipTab normalized_navigation_index session_tab of
        Inl a \<Rightarrow> Inl a
      | Inr skip \<Rightarrow>
          if skip then Inr j_window
          else
            (case CopyTabToJava normalized_navigation_index session_tab j_window of
               Inl a \<Rightarrow> Inl a
             | Inr j_window' \<Rightarrow>
                 CopyWindowToJava_tabs normalized_navigation_index rest j_window'))"

definition CopyWindowToJava ::
  "(SessionTab \<Rightarrow> int) \<Rightarrow> SessionWindow \<Rightarrow> JWindow \<Rightarrow> abort + JWindow" where
  "CopyWindowToJava normalized_navigation_index window j_window =
     CopyWindowToJava_tabs normalized_navigation_index (tabs window) j_window"

text \<open>
  \<open>CopySessionToJava\<close>: the window pushed for a source window is the object
  \<open>CopyWindowToJava\<close> then fills, so the session ends up holding the filled window.
\<close>

fun CopySessionToJava_windows ::
  "(SessionTab \<Rightarrow> int) \<Rightarrow> (int \<times> SessionWindow) list \<Rightarrow> JSession \<Rightarrow> abort + JSession" where
  "CopySessionToJava_windows normalized_navigation_index [] j_session = Inr j_session"
| "CopySessionToJava_windows normalized_navigation_index (it # rest) j_session =
     (let window = snd it
      in case ShouldSkipWindow normalized_navigation_index window of
           Inl a \<Rightarrow> Inl a
         | Inr skip \<Rightarrow>
             if skip then CopySessionToJava_windows normalized_navigation_index rest j_session
             else
               (case CopyWindowToJava normalized_navigation_index window
                       (new_window (window_timestamp window) (window_id window)) of
                  Inl a \<Rightarrow> Inl a
                | Inr last_pushed_window \<Rightarrow>
                    CopySessionToJava_windows normalized_navigation_index rest
                      (j_session\<lparr>js_windows := js_windows j_session @ [last_pushed_window]\<rparr>)))"

definition CopySessionToJava ::
  "(SessionTab \<Rightarrow> int) \<Rightarrow> SyncedSession \<Rightarrow> JSession \<Rightarrow> abort + JSession" where
  "CopySessionToJava normalized_navigation_index session j_session =
     CopySessionToJava_windows normalized_navigation_index (windows session) j_session"

text \<open>
  The loop of the "TabSyncByRecency" branch of \<open>GetForeignSessions\<close>: every tab of the
  session, skippable ones left out, in one window.
\<close>

fun copy_tabs_by_recency ::
  "(SessionTab \<Rightarrow> int) \<Rightarrow> SessionTab list \<Rightarrow> JWindow \<Rightarrow> abort + JWindow" where
  "copy_tabs_by_recency normalized_navigation_index [] j_window = Inr j_window"
| "copy_tabs_by_recency normalized_navigation_index (tab # rest) j_window =
     (case ShouldSkipTab normalized_navigation_index tab of
        Inl a \<Rightarrow> Inl a
      | Inr skip \<Rightarrow>
          if skip then copy_tabs_by_recency normalized_navigation_index rest j_window
          else
            (case CopyTabToJava normalized_navigation_index tab j_window of
               Inl a \<Rightarrow> Inl a
             | Inr j_window' \<Rightarrow>
                 copy_tabs_by_recency normalized_navigation_index rest j_window'))"

text \<open>
  The \<open>OpenTabsUIDelegate\<close> of the sync service (not among the sources):
  \<open>GetAllForeignSessions\<close> fills the session list or returns false (\<open>None\<close>), and
  \<open>GetForeignSessionTabs\<close> lists the tabs of the session with a tag, by recency.
\<close>

record OpenTabsUIDelegate =
  GetAllForeignSessions :: "SyncedSession list option"
  GetForeignSessionTabs :: "string \<Rightarrow> SessionTab list"

text \<open>
  What \<open>GetForeignSessions\<close> works on and leaves behind: the dictionary of the preference
  \<open>kNtpCollapsedForeignSessions\<close> and the Java result list.
\<close>

record ForeignSessionsState =
  pref_collapsed_sessions :: DictionaryValue
  java_result :: "JSession list"

fun GetForeignSessions_sessions ::
  "(SessionTab \<Rightarrow> int) \<Rightarrow> OpenTabsUIDelegate \<Rightarrow> string \<Rightarrow> DictionaryValue \<Rightarrow>
   SyncedSession list \<Rightarrow> ForeignSessionsState \<Rightarrow> abort + ForeignSessionsState" where
  "GetForeignSessions_sessions normalized_navigation_index open_tabs group_name
     collapsed_sessions [] st = Inr st"
| "GetForeignSessions_sessions normalized_navigation_index open_tabs group_name
     collapsed_sessions (session # rest) st =
     (case ShouldSkipSession normalized_navigation_index session of
        Inl a \<Rightarrow> Inl a
      | Inr skip \<Rightarrow>
          if skip then
            GetForeignSessions_sessions normalized_navigation_index open_tabs group_name
              collapsed_sessions rest st
          else
            (let is_collapsed = HasKey collapsed_sessions (session_tag session);
                 pref = (if is_collapsed
                         then SetBoolean (pref_collapsed_sessions st) (session_tag session) True
                         else pref_collapsed_sessions st);
                 pushed_session = new_session (session_tag session) (session_name session)
                                    (device_type session) (modified_time session);
                 filled =
                   (if group_name = ''Enabled'' then
                      (case copy_tabs_by_recency normalized_navigation_index
                              (GetForeignSessionTabs open_tabs (session_tag session))
                              (new_window (modified_time session) 0) of
                         Inl a \<Rightarrow> Inl a
                       | Inr last_pushed_window \<Rightarrow>
                           Inr (pushed_session\<lparr>js_windows := [last_pushed_window]\<rparr>))
                    else CopySessionToJava normalized_navigation_index session pushed_session)
             in case filled of
                  Inl a \<Rightarrow> Inl a
                | Inr last_pushed_session \<Rightarrow>
                    GetForeignSessions_sessions normalized_navigation_index open_tabs group_name
                      collapsed_sessions rest
                      \<lparr>pref_collapsed_sessions = pref,
                       java_result = java_result st @ [last_pushed_session]\<rparr>))"

text \<open>
  \<open>GetForeignSessions\<close>: \<open>open_tabs\<close> is the delegate of the profile, null (\<open>None\<close>) while
  sync is not active; \<open>group_name\<close> is the group of the field trial "TabSyncByRecency".
  The function returns its boolean and the state it leaves.
\<close>

definition GetForeignSessions ::
  "(SessionTab \<Rightarrow> int) \<Rightarrow> OpenTabsUIDelegate option \<Rightarrow> string \<Rightarrow> ForeignSessionsState \<Rightarrow>
   abort + bool \<times> ForeignSessionsState" where
  "GetForeignSessions normalized_navigation_index open_tabs group_name st =
     (case open_tabs of
        None \<Rightarrow> Inr (False, st)
      | Some delegate \<Rightarrow>
          (case GetAllForeignSessions delegate of
             None \<Rightarrow> Inr (False, st)
           | Some sessions \<Rightarrow>
               (let collapsed_sessions = pref_collapsed_sessions st
                in case GetForeignSessions_sessions normalized_navigation_index delegate group_name
                          collapsed_sessions sessions (st\<lparr>pref_collapsed_sessions := []\<rparr>) of
                     Inl a \<Rightarrow> Inl a
                   | Inr st' \<Rightarrow> Inr (True, st'))))"


text \<open>
  The tabs the code copies: those with a navigation entry at the normalized index whose
  virtual URL is not empty. An index is in range when it addresses an entry of a
  non-empty navigation list, the contract \<open>CopyTabToJava\<close> asserts with its DCHECKs.
\<close>

definition tab_has_url :: "(SessionTab \<Rightarrow> int) \<Rightarrow> SessionTab \<Rightarrow> bool" where
  "tab_has_url normalized_navigation_index t =
     (navigations t \<noteq> [] \<and>
      spec (virtual_url (navigations t ! nat (normalized_navigation_index t))) \<noteq> '''')"

definition index_in_range :: "(SessionTab \<Rightarrow> int) \<Rightarrow> SessionTab \<Rightarrow> bool" where
  "index_in_range normalized_navigation_index t =
     (navigations t = [] \<or>
      (0 \<le> normalized_navigation_index t \<and>
       normalized_navigation_index t < int (length (navigations t))))"

definition window_has_tab :: "(SessionTab \<Rightarrow> int) \<Rightarrow> SessionWindow \<Rightarrow> bool" where
  "window_has_tab normalized_navigation_index w =
     (\<exists>t \<in> set (tabs w). tab_has_url normalized_navigation_index t)"

definition session_has_tab :: "(SessionTab \<Rightarrow> int) \<Rightarrow> SyncedSession \<Rightarrow> bool" where
  "session_has_tab normalized_navigation_index s =
     (\<exists>it \<in> set (windows s). window_has_tab normalized_navigation_index (snd it))"

definition session_in_range :: "(SessionTab \<Rightarrow> int) \<Rightarrow> SyncedSession \<Rightarrow> bool" where
  "session_in_range normalized_navigation_index s =
     (\<forall>it \<in> set (windows s). \<forall>t \<in> set (tabs (snd it)).
        index_in_range normalized_navigation_index t)"

definition java_tab :: "(SessionTab \<Rightarrow> int) \<Rightarrow> SessionTab \<Rightarrow> JTab" where
  "java_tab normalized_navigation_index t =
     \<lparr>j_url = spec (virtual_url (navigations t ! nat (normalized_navigation_index t))),
      j_title = title (navigations t ! nat (normalized_navigation_index t)),
      j_timestamp = tab_timestamp t, j_id = tab_id t\<rparr>"

definition java_window :: "(SessionTab \<Rightarrow> int) \<Rightarrow> SessionWindow \<Rightarrow> JWindow" where
  "java_window normalized_navigation_index w =
     \<lparr>jw_timestamp = window_timestamp w, jw_id = window_id w,
      jw_tabs = map (java_tab normalized_navigation_index)
                  (takeWhile (tab_has_url normalized_navigation_index) (tabs w))\<rparr>"


definition java_session ::
  "(SessionTab \<Rightarrow> int) \<Rightarrow> OpenTabsUIDelegate \<Rightarrow> string \<Rightarrow> SyncedSession \<Rightarrow> JSession" where
  "java_session normalized_navigation_index open_tabs group_name s =
     \<lparr>js_tag = session_tag s, js_name = session_name s, js_device_type = device_type s,
      js_modified_time = modified_time s,
      js_windows =
        (if group_name = ''Enabled'' then
           [\<lparr>jw_timestamp = modified_time s, jw_id = 0,
             jw_tabs = map (java_tab normalized_navigation_index)
                         (filter (tab_has_url normalized_navigation_index)
                            (GetForeignSessionTabs open_tabs (session_tag s)))\<rparr>]
         else map (java_window normalized_navigation_index)
                (filter (window_has_tab normalized_navigation_index) (map snd (windows s))))\<rparr>"

definition recency_in_range ::
  "(SessionTab \<Rightarrow> int) \<Rightarrow> OpenTabsUIDelegate \<Rightarrow> string \<Rightarrow> SyncedSession list \<Rightarrow> bool" where
  "recency_in_range normalized_navigation_index open_tabs group_name sessions =
     (group_name \<noteq> ''Enabled'' \<or>
      (\<forall>s \<in> set sessions. \<forall>t \<in> set (GetForeignSessionTabs open_tabs (session_tag s)).
         index_in_range normalized_navigation_index t))"

text \<open>Concrete sessions on which the copy is run; \<open>clamped_index\<close> is a normalized index
  that keeps the current index inside the navigation list.\<close>

definition clamped_index :: "SessionTab \<Rightarrow> int" where
  "clamped_index t = max 0 (min (current_navigation_index t) (int (length (navigations t)) - 1))"

definition nav_page :: SerializedNavigationEntry where
  "nav_page = \<lparr>virtual_url = \<lparr>spec = ''https://example.org/'', is_valid = True, scheme = ''https''\<rparr>,
     title = ''Example''\<rparr>"

definition nav_blank :: SerializedNavigationEntry where
  "nav_blank = \<lparr>virtual_url = \<lparr>spec = '''', is_valid = False, scheme = ''''\<rparr>, title = ''''\<rparr>"

definition tab_page :: "int \<Rightarrow> SessionTab" where
  "tab_page i = \<lparr>navigations = [nav_blank, nav_page], current_navigation_index = 5,
     tab_timestamp = 100, tab_id = i\<rparr>"

definition tab_blank :: SessionTab where
  "tab_blank = \<lparr>navigations = [nav_page, nav_blank], current_navigation_index = 1,
     tab_timestamp = 101, tab_id = 2\<rparr>"

definition tab_unvisited :: SessionTab where
  "tab_unvisited = \<lparr>navigations = [], current_navigation_index = 0, tab_timestamp = 102, tab_id = 4\<rparr>"

definition window_mixed :: SessionWindow where
  "window_mixed = \<lparr>tabs = [tab_page 1, tab_blank, tab_page 3], window_timestamp = 200, window_id = 1\<rparr>"

definition window_blank :: SessionWindow where
  "window_blank = \<lparr>tabs = [tab_unvisited, tab_blank], window_timestamp = 201, window_id = 2\<rparr>"

definition session_phone :: SyncedSession where
  "session_phone = \<lparr>session_tag = ''phone'', session_name = ''Phone'', device_type = 6,
     modified_time = 300, windows = [(1, window_mixed), (2, window_blank)]\<rparr>"

definition session_idle :: SyncedSession where
  "session_idle = \<lparr>session_tag = ''idle'', session_name = ''Idle'', device_type = 1,
     modified_time = 301, windows = [(2, window_blank)]\<rparr>"

definition sync_delegate :: OpenTabsUIDelegate where
  "sync_delegate = \<lparr>GetAllForeignSessions = Some [session_idle, session_phone],
     GetForeignSessionTabs = (\<lambda>tag. [])\<rparr>"

definition both_collapsed :: ForeignSessionsState where
  "both_collapsed = \<lparr>pref_collapsed_sessions =
       [(''gone'', BooleanValue True), (''idle'', BooleanValue True), (''phone'', BooleanValue True)],
     java_result = []\<rparr>"

definition empty_session :: JSession where
  "empty_session = new_session ''phone'' ''Phone'' 6 300"

section \<open>chrome.webstorePrivate (webstore_private_api.cc)\<close>

definition kAlreadyInstalledError :: string where
  "kAlreadyInstalledError = ''This item is already installed''"










text \<open>The answers of an extension function. \<open>Error\<close> keeps the format and the argument
  that \<open>ErrorUtils::FormatErrorMessage\<close> puts in place of its \<open>*\<close>.\<close>

datatype Result =
    RESULT_NONE
  | RESULT_EMPTY_STRING
  | RESULT_SUCCESS
  | RESULT_USER_CANCELLED
  | RESULT_UNKNOWN_ERROR
  | RESULT_ICON_ERROR
  | RESULT_MANIFEST_ERROR
  | RESULT_INVALID_ID
  | RESULT_INVALID_ICON_URL
  | RESULT_ALREADY_INSTALLED
  | RESULT_BLOCKED_BY_POLICY

datatype ResponseValue =
    Error string "string option"
  | ErrorWithArguments Result string
  | ArgumentList Result
  | NoArguments







datatype PromptResult = ACCEPTED | USER_CANCELED | ABORTED









section \<open>Public ids of signed-in devices (id_mapping_helper.cc)\<close>

text \<open>
  \<open>GetRandomId\<close> loops until the decimal string of its counter is not a key of the mapping.
  The loop ends because distinct integers have distinct decimal strings: the facts about
  \<open>IntToString\<close> that the termination proof needs come first. The C++ \<open>int\<close> counter is an
  \<open>int\<close> here: it starts at a draw between 0 and twice the device count and moves up by one
  for each key it meets, so it leaves the range of a 32-bit integer only with some \<open>2^30\<close>
  devices or keys.
\<close>

declare NatToString.simps [simp del]
















definition GetGUIDFromPublicId :: "DictionaryValue \<Rightarrow> string \<Rightarrow> string" where
  "GetGUIDFromPublicId id_mapping ident =
     (case GetString id_mapping ident of Some g \<Rightarrow> g | None \<Rightarrow> '''')"








section \<open>Properties of chrome.tabCapture.capture\<close>

text \<open>
  C6. When the parameters parse, a browser with an active tab is found and the permission
  check passes, \<open>chrome.tabCapture.capture\<close> returns false with exactly the error
  "Capture failed. No audio or video requested." if and only if neither \<open>options.audio\<close>
  nor \<open>options.video\<close> is present and true; and when one of them is requested but the
  registry rejects the request, it returns false with exactly the error
  "Cannot capture a tab with an active stream." and sets no result.
\<close>

theorem capture_audio_video_errors:
  assumes found: "FindAnyBrowser host = Some (Some target_contents)"
    and granted: "capture_granted host target_contents"
  shows "((returned (TabCaptureCaptureFunction_RunSync host (Some opts)) = False \<and>
           error (TabCaptureCaptureFunction_RunSync host (Some opts)) =
             ''Capture failed. No audio or video requested.'')
          = (\<not> (audio opts = Some True \<or> video opts = Some True))) \<and>
         ((audio opts = Some True \<or> video opts = Some True) \<and>
          \<not> AddRequest host target_contents (caller_extension_id host) False \<longrightarrow>
          returned (TabCaptureCaptureFunction_RunSync host (Some opts)) = False \<and>
          error (TabCaptureCaptureFunction_RunSync host (Some opts)) =
            ''Cannot capture a tab with an active stream.'' \<and>
          result (TabCaptureCaptureFunction_RunSync host (Some opts)) = None)"
proof -
  have av: "OptionsSpecifyAudioOrVideo opts = (audio opts = Some True \<or> video opts = Some True)"
    by (auto simp: OptionsSpecifyAudioOrVideo_def split: option.splits)
  show ?thesis
  proof (cases "OptionsSpecifyAudioOrVideo opts")
    case False
    then show ?thesis
      using found granted av
      by (simp add: TabCaptureCaptureFunction_RunSync_def fail_with_def kNoAudioOrVideo_def)
  next
    case True
    then show ?thesis
      using found granted av
      by (simp add: TabCaptureCaptureFunction_RunSync_def fail_with_def succeed_with_def
          kCapturingSameTab_def)
  qed
qed

theorem capture_audio_video_errors_witness:
  "FindAnyBrowser busy_host = Some (Some tab1) \<and> capture_granted busy_host tab1 \<and>
   returned (TabCaptureCaptureFunction_RunSync busy_host (Some audio_only)) = False \<and>
   error (TabCaptureCaptureFunction_RunSync busy_host (Some audio_only)) =
     ''Cannot capture a tab with an active stream.'' \<and>
   result (TabCaptureCaptureFunction_RunSync busy_host (Some audio_only)) = None \<and>
   error (TabCaptureCaptureFunction_RunSync busy_host (Some nothing_requested)) =
     ''Capture failed. No audio or video requested.''"
proof -
  have found: "FindAnyBrowser busy_host = Some (Some tab1)"
    by (simp add: busy_host_def)
  have granted: "capture_granted busy_host tab1"
    by (simp add: capture_granted_def busy_host_def tab1_def)
  have rejected: "\<not> AddRequest busy_host tab1 (caller_extension_id busy_host) False"
    by (simp add: busy_host_def)
  show ?thesis
    using capture_audio_video_errors [OF found granted, of audio_only]
      capture_audio_video_errors [OF found granted, of nothing_requested]
      found granted rejected
    by (simp add: audio_only_def nothing_requested_def)
qed

section \<open>Properties of chrome.tabCapture.captureOffscreenTab\<close>

text \<open>
  C7. \<open>captureOffscreenTab\<close> applies its checks in a fixed order and the first failing one
  determines the error: not whitelisted; then a start URL that is invalid or whose scheme
  is none of http, https, data; then options asking for neither audio nor video; then
  no new off-screen tab; then a request the registry rejects.
\<close>

theorem offscreen_checks_in_order:
  "(\<not> is_whitelisted_extension host \<longrightarrow>
      TabCaptureCaptureOffscreenTabFunction_RunSync host (Some p) =
        fail_with kNotWhitelistedForOffscreenTabApi) \<and>
   (is_whitelisted_extension host \<and>
    \<not> (is_valid (ParseGURL host (start_url p)) \<and>
       scheme (ParseGURL host (start_url p)) \<in> {''http'', ''https'', ''data''}) \<longrightarrow>
      TabCaptureCaptureOffscreenTabFunction_RunSync host (Some p) =
        fail_with kInvalidStartUrl) \<and>
   (is_whitelisted_extension host \<and>
    is_valid (ParseGURL host (start_url p)) \<and>
    scheme (ParseGURL host (start_url p)) \<in> {''http'', ''https'', ''data''} \<and>
    \<not> (audio (options p) = Some True \<or> video (options p) = Some True) \<longrightarrow>
      TabCaptureCaptureOffscreenTabFunction_RunSync host (Some p) =
        fail_with kNoAudioOrVideo) \<and>
   (is_whitelisted_extension host \<and>
    is_valid (ParseGURL host (start_url p)) \<and>
    scheme (ParseGURL host (start_url p)) \<in> {''http'', ''https'', ''data''} \<and>
    (audio (options p) = Some True \<or> video (options p) = Some True) \<and>
    GetSenderWebContents host \<noteq> None \<and>
    OpenNewTab host (ParseGURL host (start_url p)) (DetermineInitialSize (options p))
      (case presentation_id (options p) of Some pid \<Rightarrow> pid | None \<Rightarrow> '''') = None \<longrightarrow>
      TabCaptureCaptureOffscreenTabFunction_RunSync host (Some p) =
        fail_with kTooManyOffscreenTabs) \<and>
   (\<forall>offscreen_tab.
      is_whitelisted_extension host \<and>
      is_valid (ParseGURL host (start_url p)) \<and>
      scheme (ParseGURL host (start_url p)) \<in> {''http'', ''https'', ''data''} \<and>
      (audio (options p) = Some True \<or> video (options p) = Some True) \<and>
      GetSenderWebContents host \<noteq> None \<and>
      OpenNewTab host (ParseGURL host (start_url p)) (DetermineInitialSize (options p))
        (case presentation_id (options p) of Some pid \<Rightarrow> pid | None \<Rightarrow> '''') =
        Some offscreen_tab \<and>
      \<not> AddRequest host offscreen_tab (caller_extension_id host) True \<longrightarrow>
      TabCaptureCaptureOffscreenTabFunction_RunSync host (Some p) =
        fail_with kCapturingSameOffscreenTab)"
proof -
  have av: "OptionsSpecifyAudioOrVideo (options p) =
      (audio (options p) = Some True \<or> video (options p) = Some True)"
    by (auto simp: OptionsSpecifyAudioOrVideo_def split: option.splits)
  have url: "IsAcceptableOffscreenTabUrl (ParseGURL host (start_url p)) =
      (is_valid (ParseGURL host (start_url p)) \<and>
       scheme (ParseGURL host (start_url p)) \<in> {''http'', ''https'', ''data''})"
    by (auto simp: IsAcceptableOffscreenTabUrl_def SchemeIsHTTPOrHTTPS_def SchemeIs_def)
  show ?thesis
  proof (cases "is_whitelisted_extension host")
    case False
    then show ?thesis
      by (simp add: TabCaptureCaptureOffscreenTabFunction_RunSync_def)
  next
    case wl: True
    show ?thesis
    proof (cases "IsAcceptableOffscreenTabUrl (ParseGURL host (start_url p))")
      case False
      then have "TabCaptureCaptureOffscreenTabFunction_RunSync host (Some p) =
          fail_with kInvalidStartUrl"
        using wl by (simp add: TabCaptureCaptureOffscreenTabFunction_RunSync_def)
      moreover have "\<not> (is_valid (ParseGURL host (start_url p)) \<and>
          scheme (ParseGURL host (start_url p)) \<in> {''http'', ''https'', ''data''})"
        using False url by blast
      ultimately show ?thesis using wl by blast
    next
      case ok: True
      then have u: "is_valid (ParseGURL host (start_url p)) \<and>
          scheme (ParseGURL host (start_url p)) \<in> {''http'', ''https'', ''data''}"
        using url by blast
      show ?thesis
      proof (cases "OptionsSpecifyAudioOrVideo (options p)")
        case False
        then have "TabCaptureCaptureOffscreenTabFunction_RunSync host (Some p) =
            fail_with kNoAudioOrVideo"
          using wl ok by (simp add: TabCaptureCaptureOffscreenTabFunction_RunSync_def)
        moreover have "\<not> (audio (options p) = Some True \<or> video (options p) = Some True)"
          using False av by blast
        ultimately show ?thesis using wl u by blast
      next
        case requested: True
        then have r: "audio (options p) = Some True \<or> video (options p) = Some True"
          using av by blast
        show ?thesis
        proof (cases "GetSenderWebContents host")
          case None
          with wl u r show ?thesis by simp
        next
          case (Some extension_web_contents)
          then have run: "TabCaptureCaptureOffscreenTabFunction_RunSync host (Some p) =
              (case OpenNewTab host (ParseGURL host (start_url p))
                      (DetermineInitialSize (options p))
                      (case presentation_id (options p) of Some pid \<Rightarrow> pid | None \<Rightarrow> '''') of
                 None \<Rightarrow> fail_with kTooManyOffscreenTabs
               | Some offscreen_tab \<Rightarrow>
                   if \<not> AddRequest host offscreen_tab (caller_extension_id host) True
                     then fail_with kCapturingSameOffscreenTab
                   else succeed_with (AddMediaStreamSourceConstraints offscreen_tab (options p)))"
            using wl ok requested
            by (simp add: TabCaptureCaptureOffscreenTabFunction_RunSync_def)
          from wl u r show ?thesis
            by (auto simp: run)
        qed
      qed
    qed
  qed
qed

theorem offscreen_checks_in_order_witness:
  "TabCaptureCaptureOffscreenTabFunction_RunSync (busy_host\<lparr>caller_extension_id := ''x''\<rparr>)
     (Some (offscreen_request ''ftp://example.org/'' nothing_requested)) =
     fail_with kNotWhitelistedForOffscreenTabApi \<and>
   TabCaptureCaptureOffscreenTabFunction_RunSync busy_host
     (Some (offscreen_request ''ftp://example.org/'' nothing_requested)) =
     fail_with kInvalidStartUrl \<and>
   TabCaptureCaptureOffscreenTabFunction_RunSync busy_host
     (Some (offscreen_request ''https://example.org/'' nothing_requested)) =
     fail_with kNoAudioOrVideo \<and>
   TabCaptureCaptureOffscreenTabFunction_RunSync (busy_host\<lparr>OpenNewTab := (\<lambda>u s p. None)\<rparr>)
     (Some (offscreen_request ''https://example.org/'' audio_only)) =
     fail_with kTooManyOffscreenTabs \<and>
   TabCaptureCaptureOffscreenTabFunction_RunSync busy_host
     (Some (offscreen_request ''https://example.org/'' audio_only)) =
     fail_with kCapturingSameOffscreenTab"
proof -
  note facts = is_whitelisted_extension_def busy_host_def offscreen_request_def url_of_text_def
    kChromecastExtensionIds_def kMediaRouterExtensionIds_def kStableChromecastExtensionId_def
    kBetaChromecastExtensionId_def audio_only_def nothing_requested_def
  have a: "TabCaptureCaptureOffscreenTabFunction_RunSync (busy_host\<lparr>caller_extension_id := ''x''\<rparr>)
     (Some (offscreen_request ''ftp://example.org/'' nothing_requested)) =
     fail_with kNotWhitelistedForOffscreenTabApi"
    using offscreen_checks_in_order [of "busy_host\<lparr>caller_extension_id := ''x''\<rparr>"
        "offscreen_request ''ftp://example.org/'' nothing_requested"]
    by (simp add: facts)
  have b: "TabCaptureCaptureOffscreenTabFunction_RunSync busy_host
     (Some (offscreen_request ''ftp://example.org/'' nothing_requested)) =
     fail_with kInvalidStartUrl"
    using offscreen_checks_in_order [of busy_host
        "offscreen_request ''ftp://example.org/'' nothing_requested"]
    by (simp add: facts)
  have c: "TabCaptureCaptureOffscreenTabFunction_RunSync busy_host
     (Some (offscreen_request ''https://example.org/'' nothing_requested)) =
     fail_with kNoAudioOrVideo"
    using offscreen_checks_in_order [of busy_host
        "offscreen_request ''https://example.org/'' nothing_requested"]
    by (simp add: facts)
  have d: "TabCaptureCaptureOffscreenTabFunction_RunSync
     (busy_host\<lparr>OpenNewTab := (\<lambda>u s p. None)\<rparr>)
     (Some (offscreen_request ''https://example.org/'' audio_only)) =
     fail_with kTooManyOffscreenTabs"
    using offscreen_checks_in_order [of "busy_host\<lparr>OpenNewTab := (\<lambda>u s p. None)\<rparr>"
        "offscreen_request ''https://example.org/'' audio_only"]
    by (simp add: facts)
  have e: "TabCaptureCaptureOffscreenTabFunction_RunSync busy_host
     (Some (offscreen_request ''https://example.org/'' audio_only)) =
     fail_with kCapturingSameOffscreenTab"
    using offscreen_checks_in_order [of busy_host
        "offscreen_request ''https://example.org/'' audio_only"]
    by (simp add: facts)
  from a b c d e show ?thesis by (intro conjI)
qed

section \<open>The initial size of an off-screen tab\<close>

lemma size_constraint_nonneg:
  "size_constraint d wk hk = Some (w, h) \<Longrightarrow> 0 \<le> w \<and> 0 \<le> h"
  by (auto simp: size_constraint_def split: option.splits if_splits)

lemma gfx_Size_nonneg:
  "size_constraint d wk hk = Some (w, h) \<Longrightarrow> gfx_Size w h = \<lparr>width = w, height = h\<rparr>"
  using size_constraint_nonneg [of d wk hk w h] by (simp add: gfx_Size_def)

lemma min_size_cases:
  obtains (absent) "mandatory_min vc = None"
      "(case size_constraint (mandatory vc) ''minWidth'' ''minHeight'' of
          Some (w, h) \<Rightarrow> gfx_Size w h | None \<Rightarrow> Size_default) = \<lparr>width = 0, height = 0\<rparr>"
  | (present) a b where "mandatory_min vc = Some (a, b)" "0 \<le> a" "0 \<le> b"
      "(case size_constraint (mandatory vc) ''minWidth'' ''minHeight'' of
          Some (w, h) \<Rightarrow> gfx_Size w h | None \<Rightarrow> Size_default) = \<lparr>width = a, height = b\<rparr>"
proof (cases "mandatory_min vc")
  case None
  then show ?thesis
    using absent by (simp add: mandatory_min_def Size_default_def)
next
  case (Some p)
  obtain a b where p: "p = (a, b)" by (cases p)
  with Some have sc: "size_constraint (mandatory vc) ''minWidth'' ''minHeight'' = Some (a, b)"
    by (simp add: mandatory_min_def)
  show ?thesis
    using present [of a b] Some p sc size_constraint_nonneg [OF sc] gfx_Size_nonneg [OF sc]
    by simp
qed

lemma default_bounded:
  "0 \<le> a \<Longrightarrow> 0 \<le> b \<Longrightarrow>
   default_bounded_by \<lparr>width = a, height = b\<rparr> = \<lparr>width = max 1280 a, height = max 720 b\<rparr>"
  by (simp add: default_bounded_by_def gfx_Size_def kDefaultWidth_def kDefaultHeight_def)

text \<open>
  C8 (as amended). \<open>DetermineInitialSize\<close> returns 1280x720 without video constraints;
  the mandatory (maxWidth, maxHeight) when both are there and non-negative; otherwise the
  optional non-negative (maxWidth, maxHeight), raised componentwise to the mandatory
  non-negative (minWidth, minHeight) only when neither side of that minimum is 0; otherwise
  1280x720 raised componentwise to the minimum that is, in this order, the mandatory one
  with no side 0, the optional one, the mandatory one with a side 0, or nothing.
\<close>

theorem DetermineInitialSize_amended:
  "DetermineInitialSize opts = amended_initial_size opts"
proof (cases "video_constraints opts")
  case None
  then show ?thesis
    by (simp add: DetermineInitialSize_def amended_initial_size_def gfx_Size_def
        kDefaultWidth_def kDefaultHeight_def)
next
  case vc: (Some vc)
  show ?thesis
  proof (cases "mandatory_max vc")
    case (Some s)
    obtain w h where s: "s = (w, h)" by (cases s)
    with Some have sc: "size_constraint (mandatory vc) ''maxWidth'' ''maxHeight'' = Some (w, h)"
      by (simp add: mandatory_max_def)
    show ?thesis
      using vc sc gfx_Size_nonneg [OF sc]
      by (simp add: DetermineInitialSize_def amended_initial_size_def mandatory_max_def)
  next
    case mx: None
    then have mx': "size_constraint (mandatory vc) ''maxWidth'' ''maxHeight'' = None"
      by (simp add: mandatory_max_def)
    show ?thesis
    proof (cases "optional vc")
      case None
      then have o: "optional_max vc = None" "optional_min vc = None"
        by (simp_all add: optional_max_def optional_min_def)
      show ?thesis
      proof (cases vc rule: min_size_cases)
        case absent
        then show ?thesis
          using vc mx mx' None o default_bounded [of 0 0]
          by (simp add: DetermineInitialSize_def amended_initial_size_def bounded_below_def
              first_found_def nonzero_sides_def)
      next
        case (present a b)
        then show ?thesis
          using vc mx mx' None o default_bounded [of a b]
          by (simp add: DetermineInitialSize_def amended_initial_size_def bounded_below_def
              first_found_def nonzero_sides_def)
      qed
    next
      case d: (Some d)
      show ?thesis
      proof (cases "optional_max vc")
        case (Some s)
        obtain w h where s: "s = (w, h)" by (cases s)
        with Some d have sc: "size_constraint d ''maxWidth'' ''maxHeight'' = Some (w, h)"
          by (simp add: optional_max_def)
        note wh = size_constraint_nonneg [OF sc]
        show ?thesis
        proof (cases vc rule: min_size_cases)
          case absent
          then show ?thesis
            using vc mx mx' d Some s sc gfx_Size_nonneg [OF sc]
            by (simp add: DetermineInitialSize_def amended_initial_size_def bounded_below_def
                nonzero_sides_def IsEmpty_def)
        next
          case (present a b)
          then show ?thesis
            using vc mx mx' d Some s sc gfx_Size_nonneg [OF sc] wh
            by (simp add: DetermineInitialSize_def amended_initial_size_def bounded_below_def
                nonzero_sides_def IsEmpty_def gfx_Size_def)
        qed
      next
        case omx: None
        with d have omx': "size_constraint d ''maxWidth'' ''maxHeight'' = None"
          by (simp add: optional_max_def)
        show ?thesis
        proof (cases "optional_min vc")
          case None
          with d have omn': "size_constraint d ''minWidth'' ''minHeight'' = None"
            by (simp add: optional_min_def)
          show ?thesis
          proof (cases vc rule: min_size_cases)
            case absent
            then show ?thesis
              using vc mx mx' d omx omx' None omn' default_bounded [of 0 0]
              by (simp add: DetermineInitialSize_def amended_initial_size_def bounded_below_def
                  first_found_def nonzero_sides_def IsEmpty_def)
          next
            case (present a b)
            then show ?thesis
              using vc mx mx' d omx omx' None omn' default_bounded [of a b]
              by (simp add: DetermineInitialSize_def amended_initial_size_def bounded_below_def
                  first_found_def nonzero_sides_def IsEmpty_def)
          qed
        next
          case (Some m)
          obtain c e where m: "m = (c, e)" by (cases m)
          with Some d have omn': "size_constraint d ''minWidth'' ''minHeight'' = Some (c, e)"
            by (simp add: optional_min_def)
          note ce = size_constraint_nonneg [OF omn']
          show ?thesis
          proof (cases vc rule: min_size_cases)
            case absent
            then show ?thesis
              using vc mx mx' d omx omx' Some m omn' gfx_Size_nonneg [OF omn'] ce
                default_bounded [of c e]
              by (simp add: DetermineInitialSize_def amended_initial_size_def bounded_below_def
                  first_found_def nonzero_sides_def IsEmpty_def)
          next
            case (present a b)
            then show ?thesis
              using vc mx mx' d omx omx' Some m omn' gfx_Size_nonneg [OF omn'] ce
                default_bounded [of c e] default_bounded [of a b]
              by (simp add: DetermineInitialSize_def amended_initial_size_def bounded_below_def
                  first_found_def nonzero_sides_def IsEmpty_def)
          qed
        qed
      qed
    qed
  qed
qed

text \<open>
  C8 as stated fails where the mandatory minimum is 0x0 and the optional minimum 3000x3000:
  the claim takes the pair found first (the mandatory one) and gives 1280x720, the code
  takes the optional pair and returns 3000x3000.
\<close>

theorem DetermineInitialSize_zero_min_counterexample:
  "mandatory_min (the (video_constraints zero_min_options)) = Some (0, 0) \<and>
   claimed_initial_size zero_min_options = \<lparr>width = 1280, height = 720\<rparr> \<and>
   DetermineInitialSize zero_min_options = \<lparr>width = 3000, height = 3000\<rparr>"
  by (simp add: DetermineInitialSize_def claimed_initial_size_def zero_min_options_def
      size_constraint_def GetInteger_def Get_def mandatory_max_def mandatory_min_def
      optional_max_def optional_min_def gfx_Size_def IsEmpty_def default_bounded_by_def
      kDefaultWidth_def kDefaultHeight_def bounded_below_def first_found_def)

section \<open>Properties of the foreign-session copy\<close>

lemma ShouldSkipTab_in_range:
  assumes "index_in_range nni t"
  shows "ShouldSkipTab nni t = Inr (\<not> tab_has_url nni t)"
proof (cases "navigations t = []")
  case True
  then show ?thesis by (simp add: ShouldSkipTab_def tab_has_url_def)
next
  case False
  with assms have "0 \<le> nni t" "nni t < int (length (navigations t))"
    by (simp_all add: index_in_range_def)
  with False show ?thesis
    by (simp add: ShouldSkipTab_def tab_has_url_def vector_at_def is_empty_def)
qed

lemma CopyTabToJava_in_range:
  assumes "index_in_range nni t" "tab_has_url nni t"
  shows "CopyTabToJava nni t jw = Inr (jw\<lparr>jw_tabs := jw_tabs jw @ [java_tab nni t]\<rparr>)"
proof -
  from assms have "navigations t \<noteq> []" by (simp add: tab_has_url_def)
  with assms have "0 \<le> nni t" "nni t < int (length (navigations t))"
    by (simp_all add: index_in_range_def)
  then show ?thesis
    by (simp add: CopyTabToJava_def vector_at_def pushTab_def java_tab_def Let_def)
qed

lemma ShouldSkipWindow_tabs_in_range:
  "\<forall>t \<in> set ts. index_in_range nni t \<Longrightarrow>
   ShouldSkipWindow_tabs nni ts = Inr (\<not> (\<exists>t \<in> set ts. tab_has_url nni t))"
  by (induction ts) (simp_all add: ShouldSkipTab_in_range)

lemma ShouldSkipWindow_in_range:
  "\<forall>t \<in> set (tabs w). index_in_range nni t \<Longrightarrow>
   ShouldSkipWindow nni w = Inr (\<not> window_has_tab nni w)"
  by (simp add: ShouldSkipWindow_def window_has_tab_def ShouldSkipWindow_tabs_in_range)

lemma ShouldSkipSession_windows_in_range:
  "\<forall>it \<in> set ws. \<forall>t \<in> set (tabs (snd it)). index_in_range nni t \<Longrightarrow>
   ShouldSkipSession_windows nni ws = Inr (\<not> (\<exists>it \<in> set ws. window_has_tab nni (snd it)))"
  by (induction ws) (simp_all add: ShouldSkipWindow_in_range)

lemma ShouldSkipSession_in_range:
  "session_in_range nni s \<Longrightarrow> ShouldSkipSession nni s = Inr (\<not> session_has_tab nni s)"
  by (simp add: ShouldSkipSession_def session_has_tab_def session_in_range_def
      ShouldSkipSession_windows_in_range)

lemma CopyWindowToJava_tabs_in_range:
  "\<forall>t \<in> set ts. index_in_range nni t \<Longrightarrow>
   CopyWindowToJava_tabs nni ts jw =
     Inr (jw\<lparr>jw_tabs := jw_tabs jw @ map (java_tab nni) (takeWhile (tab_has_url nni) ts)\<rparr>)"
proof (induction ts arbitrary: jw)
  case Nil
  then show ?case by simp
next
  case (Cons t ts)
  then have t: "index_in_range nni t" and ts: "\<forall>t \<in> set ts. index_in_range nni t"
    by simp_all
  show ?case
  proof (cases "tab_has_url nni t")
    case True
    then show ?thesis
      using Cons.IH [OF ts] t
      by (simp add: ShouldSkipTab_in_range CopyTabToJava_in_range)
  next
    case False
    then show ?thesis
      using t by (simp add: ShouldSkipTab_in_range)
  qed
qed

lemma CopyWindowToJava_in_range:
  "\<forall>t \<in> set (tabs w). index_in_range nni t \<Longrightarrow>
   CopyWindowToJava nni w (new_window (window_timestamp w) (window_id w)) =
     Inr (java_window nni w)"
  by (simp add: CopyWindowToJava_def CopyWindowToJava_tabs_in_range new_window_def java_window_def)

lemma CopySessionToJava_windows_in_range:
  "\<forall>it \<in> set ws. \<forall>t \<in> set (tabs (snd it)). index_in_range nni t \<Longrightarrow>
   CopySessionToJava_windows nni ws js =
     Inr (js\<lparr>js_windows := js_windows js @
            map (java_window nni) (filter (window_has_tab nni) (map snd ws))\<rparr>)"
proof (induction ws arbitrary: js)
  case Nil
  then show ?case by simp
next
  case (Cons it ws)
  then have w: "\<forall>t \<in> set (tabs (snd it)). index_in_range nni t"
    and ws: "\<forall>it \<in> set ws. \<forall>t \<in> set (tabs (snd it)). index_in_range nni t"
    by simp_all
  show ?case
    using Cons.IH [OF ws] w
    by (simp add: ShouldSkipWindow_in_range CopyWindowToJava_in_range Let_def)
qed

text \<open>
  C4. For every window that \<open>CopySessionToJava\<close> does not skip, the tabs pushed to its Java
  window are exactly the longest prefix of the window's tabs without a skippable tab:
  copying stops at the first tab with no navigations or with an empty virtual URL at its
  normalized index, and the later tabs of the window are dropped.
\<close>

theorem CopySessionToJava_pushes_prefix:
  assumes "session_in_range nni s"
  shows "CopySessionToJava nni s js =
     Inr (js\<lparr>js_windows := js_windows js @
       map (\<lambda>w. \<lparr>jw_timestamp = window_timestamp w, jw_id = window_id w,
                 jw_tabs = map (java_tab nni) (takeWhile (tab_has_url nni) (tabs w))\<rparr>)
         (filter (window_has_tab nni) (map snd (windows s)))\<rparr>)"
proof -
  have "java_window nni = (\<lambda>w. \<lparr>jw_timestamp = window_timestamp w, jw_id = window_id w,
      jw_tabs = map (java_tab nni) (takeWhile (tab_has_url nni) (tabs w))\<rparr>)"
    by (rule ext) (simp add: java_window_def)
  with assms show ?thesis
    by (simp add: CopySessionToJava_def session_in_range_def CopySessionToJava_windows_in_range)
qed






lemma copy_tabs_by_recency_in_range:
  "\<forall>t \<in> set ts. index_in_range nni t \<Longrightarrow>
   copy_tabs_by_recency nni ts jw =
     Inr (jw\<lparr>jw_tabs := jw_tabs jw @ map (java_tab nni) (filter (tab_has_url nni) ts)\<rparr>)"
proof (induction ts arbitrary: jw)
  case Nil
  then show ?case by simp
next
  case (Cons t ts)
  then have t: "index_in_range nni t" and ts: "\<forall>t \<in> set ts. index_in_range nni t"
    by simp_all
  show ?case
    using Cons.IH [OF ts] t
    by (cases "tab_has_url nni t") (simp_all add: ShouldSkipTab_in_range CopyTabToJava_in_range)
qed

lemma pushed_session_in_range:
  assumes "session_in_range nni s" "recency_in_range nni delegate grp [s]"
  shows "(if grp = ''Enabled'' then
            (case copy_tabs_by_recency nni (GetForeignSessionTabs delegate (session_tag s))
                    (new_window (modified_time s) 0) of
               Inl a \<Rightarrow> Inl a
             | Inr last_pushed_window \<Rightarrow>
                 Inr ((new_session (session_tag s) (session_name s) (device_type s)
                        (modified_time s))\<lparr>js_windows := [last_pushed_window]\<rparr>))
          else CopySessionToJava nni s
                 (new_session (session_tag s) (session_name s) (device_type s) (modified_time s)))
         = Inr (java_session nni delegate grp s)"
proof (cases "grp = ''Enabled''")
  case True
  with assms(2) have "\<forall>t \<in> set (GetForeignSessionTabs delegate (session_tag s)). index_in_range nni t"
    by (simp add: recency_in_range_def)
  with True show ?thesis
    by (simp add: copy_tabs_by_recency_in_range java_session_def new_session_def new_window_def)
next
  case False
  with assms(1) show ?thesis
    by (simp add: CopySessionToJava_def session_in_range_def CopySessionToJava_windows_in_range
        java_session_def new_session_def)
qed

lemma GetForeignSessions_sessions_result:
  assumes "\<forall>s \<in> set ss. session_in_range nni s" "recency_in_range nni delegate grp ss"
  shows "\<exists>st'. GetForeignSessions_sessions nni delegate grp collapsed ss st = Inr st' \<and>
     java_result st' =
       java_result st @ map (java_session nni delegate grp) (filter (session_has_tab nni) ss)"
  using assms
proof (induction ss arbitrary: st)
  case Nil
  then show ?case by simp
next
  case (Cons s ss)
  then have s: "session_in_range nni s" and ss: "\<forall>s \<in> set ss. session_in_range nni s"
    by simp_all
  from Cons.prems(2) have r: "recency_in_range nni delegate grp [s]"
    and rs: "recency_in_range nni delegate grp ss"
    by (auto simp: recency_in_range_def)
  show ?case
  proof (cases "session_has_tab nni s")
    case False
    with Cons.IH [OF ss rs, of st] s show ?thesis
      by (simp add: ShouldSkipSession_in_range)
  next
    case True
    define pref where "pref = (if HasKey collapsed (session_tag s)
        then SetBoolean (pref_collapsed_sessions st) (session_tag s) True
        else pref_collapsed_sessions st)"
    define st1 where "st1 = \<lparr>pref_collapsed_sessions = pref,
        java_result = java_result st @ [java_session nni delegate grp s]\<rparr>"
    have step: "GetForeignSessions_sessions nni delegate grp collapsed (s # ss) st =
        GetForeignSessions_sessions nni delegate grp collapsed ss st1"
      using True s pushed_session_in_range [OF s r]
      by (simp add: ShouldSkipSession_in_range Let_def st1_def pref_def)
    from Cons.IH [OF ss rs, of st1] True show ?thesis
      unfolding step by (simp add: st1_def)
  qed
qed

text \<open>
  C3. \<open>GetForeignSessions\<close> pushes a session to the Java result if and only if one of its
  windows holds a tab with a non-empty navigation list whose entry at the normalized
  navigation index has a non-empty virtual URL: the sessions pushed are exactly those, in
  order, and nothing is pushed for any other session.
\<close>

theorem GetForeignSessions_pushes_sessions_with_tabs:
  assumes "GetAllForeignSessions delegate = Some sessions"
    and "\<forall>s \<in> set sessions. session_in_range nni s"
    and "recency_in_range nni delegate grp sessions"
  shows "\<exists>st'. GetForeignSessions nni (Some delegate) grp st = Inr (True, st') \<and>
     java_result st' =
       java_result st @
       map (java_session nni delegate grp)
         (filter (\<lambda>s. \<exists>it \<in> set (windows s). \<exists>t \<in> set (tabs (snd it)).
                    navigations t \<noteq> [] \<and>
                    spec (virtual_url (navigations t ! nat (nni t))) \<noteq> '''') sessions)"
proof -
  have "session_has_tab nni = (\<lambda>s. \<exists>it \<in> set (windows s). \<exists>t \<in> set (tabs (snd it)).
      navigations t \<noteq> [] \<and> spec (virtual_url (navigations t ! nat (nni t))) \<noteq> '''')"
    by (rule ext) (simp add: session_has_tab_def window_has_tab_def tab_has_url_def)
  moreover obtain st' where
    "GetForeignSessions_sessions nni delegate grp (pref_collapsed_sessions st) sessions
       (st\<lparr>pref_collapsed_sessions := []\<rparr>) = Inr st'"
    "java_result st' = java_result (st\<lparr>pref_collapsed_sessions := []\<rparr>) @
       map (java_session nni delegate grp) (filter (session_has_tab nni) sessions)"
    using GetForeignSessions_sessions_result [OF assms(2,3)] by blast
  ultimately show ?thesis
    using assms(1) by (simp add: GetForeignSessions_def)
qed

lemma example_tabs_in_range:
  "index_in_range clamped_index (tab_page i)" "index_in_range clamped_index tab_blank"
  "index_in_range clamped_index tab_unvisited"
  by (simp_all add: index_in_range_def clamped_index_def tab_page_def tab_blank_def tab_unvisited_def)

lemma example_tabs_url:
  "tab_has_url clamped_index (tab_page i)" "\<not> tab_has_url clamped_index tab_blank"
  "\<not> tab_has_url clamped_index tab_unvisited"
  by (simp_all add: tab_has_url_def clamped_index_def tab_page_def tab_blank_def tab_unvisited_def
      nav_page_def nav_blank_def)

lemma example_sessions_in_range:
  "session_in_range clamped_index session_phone" "session_in_range clamped_index session_idle"
  by (simp_all add: session_in_range_def session_phone_def session_idle_def window_mixed_def
      window_blank_def example_tabs_in_range)

lemma example_sessions_tabs:
  "session_has_tab clamped_index session_phone" "\<not> session_has_tab clamped_index session_idle"
  by (simp_all add: session_has_tab_def window_has_tab_def session_phone_def session_idle_def
      window_mixed_def window_blank_def example_tabs_url)

theorem CopySessionToJava_pushes_prefix_witness:
  "session_in_range clamped_index session_phone \<and>
   CopySessionToJava clamped_index session_phone empty_session =
     Inr (empty_session\<lparr>js_windows :=
       [\<lparr>jw_timestamp = 200, jw_id = 1, jw_tabs = [java_tab clamped_index (tab_page 1)]\<rparr>]\<rparr>)"
  using CopySessionToJava_pushes_prefix [OF example_sessions_in_range(1), of empty_session]
    example_sessions_in_range(1)
  by (simp add: session_phone_def window_has_tab_def window_mixed_def window_blank_def
      example_tabs_url empty_session_def new_session_def)

theorem GetForeignSessions_pushes_sessions_with_tabs_witness:
  "GetAllForeignSessions sync_delegate = Some [session_idle, session_phone] \<and>
   session_in_range clamped_index session_idle \<and>
   session_in_range clamped_index session_phone \<and>
   (\<exists>st'. GetForeignSessions clamped_index (Some sync_delegate) '''' both_collapsed = Inr (True, st') \<and>
      map js_tag (java_result st') = [''phone''])"
proof -
  have a: "GetAllForeignSessions sync_delegate = Some [session_idle, session_phone]"
    by (simp add: sync_delegate_def)
  have b: "\<forall>s \<in> set [session_idle, session_phone]. session_in_range clamped_index s"
    by (simp add: example_sessions_in_range)
  have c: "recency_in_range clamped_index sync_delegate '''' [session_idle, session_phone]"
    by (simp add: recency_in_range_def)
  have d: "(\<lambda>s. \<exists>it \<in> set (windows s). \<exists>t \<in> set (tabs (snd it)).
      navigations t \<noteq> [] \<and> spec (virtual_url (navigations t ! nat (clamped_index t))) \<noteq> '''')
      = session_has_tab clamped_index"
    by (rule ext) (simp add: session_has_tab_def window_has_tab_def tab_has_url_def)
  from GetForeignSessions_pushes_sessions_with_tabs [OF a b c, of both_collapsed]
  obtain st' where
    run: "GetForeignSessions clamped_index (Some sync_delegate) '''' both_collapsed = Inr (True, st')"
    and res: "java_result st' = java_result both_collapsed @
       map (java_session clamped_index sync_delegate '''')
         (filter (session_has_tab clamped_index) [session_idle, session_phone])"
    unfolding d by blast
  from res have "java_result st' = [java_session clamped_index sync_delegate '''' session_phone]"
    by (simp add: example_sessions_tabs both_collapsed_def)
  moreover have "js_tag (java_session clamped_index sync_delegate '''' session_phone) = ''phone''"
    by (simp add: java_session_def session_phone_def)
  ultimately have "map js_tag (java_result st') = [''phone'']"
    by simp
  with run have "\<exists>st'. GetForeignSessions clamped_index (Some sync_delegate) '''' both_collapsed =
      Inr (True, st') \<and> map js_tag (java_result st') = [''phone'']"
    by (intro exI conjI)
  with a example_sessions_in_range show ?thesis
    by (intro conjI)
qed



section \<open>Properties of the web store install approvals\<close>












section \<open>Properties of the public ids\<close>











end
